theory Spec2Isabelle
  imports Main "HOL-Library.Sublist" "HOL-Library.AList" "HOL-Library.Char_ord"
    "HOL-Library.List_Lexorder"
begin

section \<open>The MongoDB driver of db-data-manipulate\<close>

text \<open>
  A shallow embedding of \<^verbatim>\<open>src/lib/drivers/mongodb/index.js\<close>: the class
  \<^verbatim>\<open>MongoDBDriver\<close> with its methods \<^verbatim>\<open>doBackup\<close>, \<^verbatim>\<open>doRestore\<close>,
  \<^verbatim>\<open>_backupCollections\<close>, \<^verbatim>\<open>_backupCollection\<close>, \<^verbatim>\<open>_restoreCollections\<close>,
  \<^verbatim>\<open>_restoreCollection\<close>, \<^verbatim>\<open>_dropCollections\<close>, \<^verbatim>\<open>_getDataFormat\<close> and
  \<^verbatim>\<open>_systemCollection\<close>. The database, the file system and the log are an explicit
  state that every method takes and returns; a promise is a value that is resolved,
  rejected or never settled.
\<close>

subsection \<open>Strings\<close>

text \<open>
  A JavaScript string is modelled by the bytes of its UTF-8 encoding. Searching for a
  substring, \<^verbatim>\<open>endsWith\<close> and concatenation agree on both representations of a
  well-formed string. \<^verbatim>\<open>s.endsWith(t)\<close> is \<^term>\<open>suffix t s\<close>,
  \<^verbatim>\<open>s.includes(t)\<close> is \<^term>\<open>sublist t s\<close>.
\<close>

text \<open>A number inside a template literal: its decimal digits.\<close>

fun decimal :: "nat \<Rightarrow> string" where
  "decimal n =
     (if n < 10 then [''0123456789'' ! n]
      else decimal (n div 10) @ [''0123456789'' ! (n mod 10)])"

declare decimal.simps [simp del]

text \<open>\<^verbatim>\<open>Array.prototype.join\<close>.\<close>

fun join :: "string list \<Rightarrow> string \<Rightarrow> string" where
  "join [] sep = []"
| "join [x] sep = x"
| "join (x # y # ys) sep = x @ sep @ join (y # ys) sep"

text \<open>
  \<^verbatim>\<open>subject.replace(pattern, replacement)\<close> with a string pattern: only the first
  occurrence of the pattern is replaced. The replacement is taken literally (the one
  call of the driver passes the empty string).
\<close>

fun replace :: "string \<Rightarrow> string \<Rightarrow> string \<Rightarrow> string" where
  "replace [] pattern replacement = (if pattern = [] then replacement else [])"
| "replace (c # cs) pattern replacement =
     (if prefix pattern (c # cs) then replacement @ drop (length pattern) (c # cs)
      else c # replace cs pattern replacement)"

subsection \<open>The pattern of system collections\<close>

text \<open>
  \<^verbatim>\<open>const systemRegex = /^.*system\..*$/;\<close> has no flag. Without the \<^verbatim>\<open>s\<close> flag
  the dot matches every character but the four line terminators U+000A, U+000D, U+2028
  and U+2029 (in UTF-8 the last two are E2 80 A8 and E2 80 A9); without the \<^verbatim>\<open>m\<close>
  flag \<^verbatim>\<open>^\<close> and \<^verbatim>\<open>$\<close> match at the two ends of the input only. So \<^verbatim>\<open>.*\<close>
  spans a stretch of the input exactly when the stretch holds no line terminator.
\<close>

definition lineTerminator :: "string \<Rightarrow> bool" where
  "lineTerminator s =
     (sublist [CHR 0x0A] s \<or> sublist [CHR 0x0D] s \<or>
      sublist [CHR 0xE2, CHR 0x80, CHR 0xA8] s \<or> sublist [CHR 0xE2, CHR 0x80, CHR 0xA9] s)"

definition dotStar :: "string \<Rightarrow> bool" where
  "dotStar s = (\<not> lineTerminator s)"

text \<open>
  \<^verbatim>\<open>systemRegex.test(s)\<close>: some position \<open>i\<close> splits the input into a stretch for
  the first \<^verbatim>\<open>.*\<close>, the seven characters \<^verbatim>\<open>system.\<close> and a stretch for the
  second \<^verbatim>\<open>.*\<close>.
\<close>

definition systemRegex :: "string \<Rightarrow> bool" where
  "systemRegex s =
     list_ex (\<lambda>i. dotStar (take i s) \<and> prefix ''system.'' (drop i s) \<and> dotStar (drop (i + 7) s))
       [0 ..< Suc (length s)]"

definition systemCollection :: "string \<Rightarrow> bool" where
  "systemCollection collectionName = systemRegex collectionName"

subsection \<open>Configuration, registry and environment\<close>

text \<open>
  The fields of the driver that the methods read: \<^verbatim>\<open>this.path\<close>,
  \<^verbatim>\<open>this.database\<close> and \<^verbatim>\<open>this.format\<close>.
\<close>

record config =
  path :: string
  database :: string
  format :: string

text \<open>
  The modules \<^verbatim>\<open>../../constants\<close> and \<^verbatim>\<open>./parsers\<close> are not part of the sources,
  so what the driver imports from them is a parameter: the list
  \<^verbatim>\<open>Object.values(FORMATS)\<close>, and the two tables \<^verbatim>\<open>backupParsersOptions\<close> and
  \<^verbatim>\<open>restoreParsersOptions\<close>, indexed by a format. A backup entry (\<^verbatim>\<open>transform\<close>
  and \<^verbatim>\<open>pipe\<close> together) is the function from the documents of a collection to the
  contents of its file. A restore entry is \<^verbatim>\<open>readData\<close>, from the contents of a
  file to its documents; \<open>None\<close> is a rejected promise (contents that do not parse).
\<close>

record 'd registry =
  FORMATS :: "string list"
  backupParsersOptions :: "string \<Rightarrow> ('d list \<Rightarrow> string) option"
  restoreParsersOptions :: "string \<Rightarrow> (string \<Rightarrow> 'd list option) option"

text \<open>
  What the run takes from outside: the clock (\<^verbatim>\<open>new Date().getTime()\<close>); for a
  collection, whether its cursor stream emits \<^verbatim>\<open>error\<close> (with the message of the error
  and the bytes that had reached the file by then) instead of \<^verbatim>\<open>end\<close>; the text of
  the \<^verbatim>\<open>TypeError\<close> that the engine raises when \<^verbatim>\<open>undefined\<close> is destructured; and
  how many database requests of the restore loop are served before the drops of
  \<^verbatim>\<open>_dropCollections\<close>, which nothing waits for.
\<close>

record env =
  now :: nat
  streamFault :: "string \<Rightarrow> (string \<times> string) option"
  typeError :: string
  dropDelay :: nat

subsection \<open>The state: database, file system, log\<close>

text \<open>
  A file is readable with its contents, or its read stream emits \<^verbatim>\<open>error\<close> with a
  message. The file system is flat: a list of files by full path and the list of
  directories that were created.
\<close>

datatype fsFile = Readable string | Unreadable string

text \<open>
  The database is the list of its collections (name and documents) in the order of
  \<^verbatim>\<open>db.collections()\<close>. \<open>dropsPending\<close> is \<open>Some n\<close> while the drops of a
  \<^verbatim>\<open>_dropCollections\<close> call are still on their way: they are served after \<open>n\<close> more
  requests of the restore loop. \<open>uncaught\<close> holds the exceptions that were thrown
  outside every promise: an \<^verbatim>\<open>error\<close> event that nothing listens to.
\<close>

record 'd world =
  collections :: "(string \<times> 'd list) list"
  directories :: "string list"
  files :: "(string \<times> fsFile) list"
  logged :: "string list"
  dropsPending :: "nat option"
  uncaught :: "string list"

datatype 'a promise = Resolved 'a | Rejected string | Pending

definition logInfo :: "string \<Rightarrow> 'd world \<Rightarrow> 'd world" where
  "logInfo message w = w\<lparr>logged := logged w @ [message]\<rparr>"

definition quoted :: "string \<Rightarrow> string" where
  "quoted p = [CHR 0x27] @ p @ [CHR 0x27]"

definition allPaths :: "'d world \<Rightarrow> string list" where
  "allPaths w = map fst (files w) @ directories w"

text \<open>
  A directory exists when it was created or when some path lies beneath it.
\<close>

definition isDirectory :: "'d world \<Rightarrow> string \<Rightarrow> bool" where
  "isDirectory w p =
     (p \<in> set (directories w) \<or> list_ex (\<lambda>q. strict_prefix (p @ ''/'') q) (allPaths w))"

definition isFile :: "'d world \<Rightarrow> string \<Rightarrow> bool" where
  "isFile w p = (p \<in> set (map fst (files w)))"

text \<open>
  The parent of a path is what stands before its last separator; the empty parent is
  the root or the working directory, which exist.
\<close>

definition parentOf :: "string \<Rightarrow> string" where
  "parentOf p = rev (drop 1 (dropWhile (\<lambda>c. c \<noteq> CHR ''/'') (rev p)))"

definition parentExists :: "'d world \<Rightarrow> string \<Rightarrow> bool" where
  "parentExists w p = (parentOf p = [] \<or> isDirectory w (parentOf p))"

text \<open>
  \<^verbatim>\<open>fs.mkdirSync(p)\<close> throws when the path exists and when its parent is missing.
\<close>

definition mkdirSync :: "string \<Rightarrow> 'd world \<Rightarrow> string + 'd world" where
  "mkdirSync p w =
     (if isDirectory w p \<or> isFile w p
      then Inl (''Error: EEXIST: file already exists, mkdir '' @ quoted p)
      else if \<not> parentExists w p
      then Inl (''Error: ENOENT: no such file or directory, mkdir '' @ quoted p)
      else Inr (w\<lparr>directories := directories w @ [p]\<rparr>))"

text \<open>
  \<^verbatim>\<open>fs.createWriteStream(p)\<close> and the bytes piped into it. The stream opens the
  file: it is created, or truncated, and holds the bytes. When the file cannot be
  opened (its parent is missing, as for a name that holds a separator, or the path is a
  directory) no file is written and the stream emits \<^verbatim>\<open>error\<close>. Nothing in
  \<^verbatim>\<open>_backupCollection\<close> listens to the write stream, so the error is thrown as an
  uncaught exception and settles no promise.
\<close>

definition createWriteStream :: "string \<Rightarrow> string \<Rightarrow> 'd world \<Rightarrow> 'd world" where
  "createWriteStream p bytes w =
     (if isDirectory w p
      then w\<lparr>uncaught := uncaught w @
             [''Error: EISDIR: illegal operation on a directory, open '' @ quoted p]\<rparr>
      else if parentExists w p
      then w\<lparr>files := AList.update p (Readable bytes) (files w)\<rparr>
      else if isFile w (parentOf p)
      then w\<lparr>uncaught := uncaught w @ [''Error: ENOTDIR: not a directory, open '' @ quoted p]\<rparr>
      else w\<lparr>uncaught := uncaught w @
             [''Error: ENOENT: no such file or directory, open '' @ quoted p]\<rparr>)"

text \<open>
  \<^verbatim>\<open>fs.readdirSync(p)\<close>: the names directly beneath the directory, sorted, with or
  without a trailing separator in \<open>p\<close>; it throws when \<open>p\<close> is no directory.
\<close>

definition dirName :: "string \<Rightarrow> string" where
  "dirName p = (if p \<noteq> [] \<and> last p = CHR ''/'' then butlast p else p)"

definition entries :: "'d world \<Rightarrow> string \<Rightarrow> string list" where
  "entries w d =
     sort (remdups (filter (\<lambda>name. name \<noteq> [])
       (map (\<lambda>q. takeWhile (\<lambda>c. c \<noteq> CHR ''/'') (drop (Suc (length d)) q))
         (filter (\<lambda>q. strict_prefix (d @ ''/'') q) (allPaths w)))))"

definition readdirSync :: "'d world \<Rightarrow> string \<Rightarrow> string + string list" where
  "readdirSync w p =
     (if isDirectory w (dirName p) then Inr (entries w (dirName p))
      else if isFile w (dirName p)
      then Inl (''Error: ENOTDIR: not a directory, scandir '' @ quoted p)
      else Inl (''Error: ENOENT: no such file or directory, scandir '' @ quoted p))"

text \<open>
  \<^verbatim>\<open>fs.createReadStream(p)\<close>, read to its end: the contents, or the message of the
  \<^verbatim>\<open>error\<close> event.
\<close>

definition readStream :: "'d world \<Rightarrow> string \<Rightarrow> string + string" where
  "readStream w p =
     (case map_of (files w) p of
        Some (Readable bytes) \<Rightarrow> Inr bytes
      | Some (Unreadable message) \<Rightarrow> Inl message
      | None \<Rightarrow>
          if isDirectory w p then Inl ''EISDIR: illegal operation on a directory, read''
          else Inl (''ENOENT: no such file or directory, open '' @ quoted p))"

subsection \<open>Backup\<close>

text \<open>
  \<^verbatim>\<open>_backupCollection(collection, fileName, backupOptions)\<close>. Destructuring
  \<^verbatim>\<open>backupOptions\<close> throws when the table has no entry for the format, and the
  \<^verbatim>\<open>async\<close> method turns the exception into a rejection. Otherwise the write stream
  is created and the promise settles on the first event of the cursor stream, the only
  stream with listeners: \<^verbatim>\<open>error\<close> rejects with a sentence naming the collection,
  \<^verbatim>\<open>end\<close> resolves. A write stream that fails changes nothing of this.
\<close>

definition backupCollection ::
  "env \<Rightarrow> string \<times> 'd list \<Rightarrow> string \<Rightarrow> ('d list \<Rightarrow> string) option \<Rightarrow> 'd world
     \<Rightarrow> unit promise \<times> 'd world" where
  "backupCollection e collection fileName backupOptions w =
     (case backupOptions of
        None \<Rightarrow> (Rejected (typeError e), w)
      | Some encode \<Rightarrow>
          (case streamFault e (fst collection) of
             Some (message, bytes) \<Rightarrow>
               (Rejected (''Can't back up '' @ fst collection @ ''. '' @ message),
                createWriteStream fileName bytes w)
           | None \<Rightarrow> (Resolved (), createWriteStream fileName (encode (snd collection)) w)))"

text \<open>
  The \<^verbatim>\<open>while\<close> loop of \<^verbatim>\<open>_backupCollections\<close>, which shifts one collection after
  the other off the list. A rejected \<^verbatim>\<open>await\<close> throws out of the loop.
\<close>

fun backupLoop ::
  "config \<Rightarrow> env \<Rightarrow> string \<Rightarrow> ('d list \<Rightarrow> string) option \<Rightarrow> (string \<times> 'd list) list
     \<Rightarrow> 'd world \<Rightarrow> unit promise \<times> 'd world" where
  "backupLoop c e backupFolder parserOptions [] w = (Resolved (), w)"
| "backupLoop c e backupFolder parserOptions (collection # rest) w =
     (if \<not> systemCollection (fst collection)
      then
        (case backupCollection e collection
                (backupFolder @ ''/'' @ fst collection @ ''.'' @ format c) parserOptions w of
           (Resolved u, w') \<Rightarrow> backupLoop c e backupFolder parserOptions rest w'
         | (Rejected err, w') \<Rightarrow> (Rejected err, w')
         | (Pending, w') \<Rightarrow> (Pending, w'))
      else backupLoop c e backupFolder parserOptions rest w)"

text \<open>\<^verbatim>\<open>_backupCollections(db)\<close>; a throwing \<^verbatim>\<open>mkdirSync\<close> rejects its promise.\<close>

definition backupCollections ::
  "'d registry \<Rightarrow> config \<Rightarrow> env \<Rightarrow> 'd world \<Rightarrow> string promise \<times> 'd world" where
  "backupCollections r c e w =
     (let parserOptions = backupParsersOptions r (format c);
          backupFolder = path c @ decimal (now e) @ ''_'' @ database c
      in case mkdirSync backupFolder w of
           Inl err \<Rightarrow> (Rejected err, w)
         | Inr w1 \<Rightarrow>
             (case backupLoop c e backupFolder parserOptions (collections w1) w1 of
                (Resolved u, w2) \<Rightarrow> (Resolved backupFolder, w2)
              | (Rejected err, w2) \<Rightarrow> (Rejected err, w2)
              | (Pending, w2) \<Rightarrow> (Pending, w2)))"

text \<open>
  \<^verbatim>\<open>doBackupPromise\<close>, the promise that \<^verbatim>\<open>doBackup\<close> builds, once the client is
  connected.
\<close>

definition doBackupPromise ::
  "'d registry \<Rightarrow> config \<Rightarrow> env \<Rightarrow> 'd world \<Rightarrow> string promise \<times> 'd world" where
  "doBackupPromise r c e w =
     (if length (collections w) = 0 then (Rejected ''Database is empty'', w)
      else backupCollections r c e w)"

text \<open>
  \<^verbatim>\<open>doBackup()\<close>: the sentence that the returned promise resolves to, \<open>None\<close> when
  it never settles.
\<close>

definition doBackup ::
  "'d registry \<Rightarrow> config \<Rightarrow> env \<Rightarrow> 'd world \<Rightarrow> string option \<times> 'd world" where
  "doBackup r c e w =
     (case doBackupPromise r c e w of
        (Resolved backupFolder, w') \<Rightarrow>
          (Some (''Backup is ready. Path to backup is '' @ backupFolder @ ''.''), w')
      | (Rejected err, w') \<Rightarrow> (Some (''Error while backing up database. '' @ err), w')
      | (Pending, w') \<Rightarrow> (None, w'))"

subsection \<open>Restore\<close>

text \<open>
  \<^verbatim>\<open>_getDataFormat(fileName)\<close>: a \<^verbatim>\<open>reduce\<close> from \<^verbatim>\<open>null\<close> over the formats;
  the last format that the name ends with wins.
\<close>

definition getDataFormat :: "'d registry \<Rightarrow> string \<Rightarrow> string option" where
  "getDataFormat r fileName =
     foldl (\<lambda>dataFormat key. if suffix (''.'' @ key) fileName then Some key else dataFormat)
       None (FORMATS r)"

text \<open>
  The body of \<^verbatim>\<open>_dropCollections(db)\<close>: every collection that is not a system
  collection is dropped.
\<close>

definition dropCollections :: "'d world \<Rightarrow> 'd world" where
  "dropCollections w =
     w\<lparr>collections := filter (\<lambda>collection. systemCollection (fst collection)) (collections w)\<rparr>"

text \<open>
  \<^verbatim>\<open>_dropCollections\<close> returns nothing, so \<^verbatim>\<open>await this._dropCollections(db)\<close>
  waits for no drop. \<open>settle\<close> serves the drops that are on their way; \<open>request\<close> is
  the moment a request of the restore loop reaches the server: the drops are served
  first if their delay has run out.
\<close>

definition settle :: "'d world \<Rightarrow> 'd world" where
  "settle w =
     (case dropsPending w of
        None \<Rightarrow> w
      | Some n \<Rightarrow> (dropCollections w)\<lparr>dropsPending := None\<rparr>)"

definition request :: "'d world \<Rightarrow> 'd world" where
  "request w =
     (case dropsPending w of
        None \<Rightarrow> w
      | Some 0 \<Rightarrow> settle w
      | Some (Suc n) \<Rightarrow> w\<lparr>dropsPending := Some n\<rparr>)"

text \<open>
  \<^verbatim>\<open>db.createCollection(name)\<close> hands back the collection of that name and creates it
  when there is none. \<^verbatim>\<open>collection.bulkWrite\<close> of \<^verbatim>\<open>insertOne\<close> operations appends
  the documents (a write to a collection that was dropped meanwhile creates it again).
\<close>

definition createCollection :: "string \<Rightarrow> 'd world \<Rightarrow> 'd world" where
  "createCollection name w =
     (let w' = request w
      in if name \<in> set (map fst (collections w')) then w'
         else w'\<lparr>collections := collections w' @ [(name, [])]\<rparr>)"

fun insertAll :: "string \<Rightarrow> 'd list \<Rightarrow> (string \<times> 'd list) list \<Rightarrow> (string \<times> 'd list) list" where
  "insertAll name documents [] = [(name, documents)]"
| "insertAll name documents (collection # rest) =
     (if fst collection = name then (name, snd collection @ documents) # rest
      else collection # insertAll name documents rest)"

definition bulkWrite :: "string \<Rightarrow> 'd list \<Rightarrow> 'd world \<Rightarrow> 'd world" where
  "bulkWrite name documents w =
     (let w' = request w in w'\<lparr>collections := insertAll name documents (collections w')\<rparr>)"

text \<open>
  \<^verbatim>\<open>_restoreCollection(collection, filePath, dataFormat)\<close> resolves to the number of
  inserted documents. The executor of its promise is an \<^verbatim>\<open>async\<close> function, so an
  exception inside it settles nothing: the promise stays pending when the table has no
  entry for the format, when \<^verbatim>\<open>readData\<close> rejects, and when \<^verbatim>\<open>bulkWrite\<close> rejects
  (the driver refuses an empty list of operations). Only the \<^verbatim>\<open>error\<close> event of the
  read stream rejects it.
\<close>

definition restoreCollection ::
  "'d registry \<Rightarrow> string \<Rightarrow> string \<Rightarrow> string \<Rightarrow> 'd world \<Rightarrow> nat promise \<times> 'd world" where
  "restoreCollection r collectionName filePath dataFormat w =
     (case readStream w filePath of
        Inl message \<Rightarrow> (Rejected (''Can't restore '' @ collectionName @ ''. '' @ message), w)
      | Inr bytes \<Rightarrow>
          (case restoreParsersOptions r dataFormat of
             None \<Rightarrow> (Pending, w)
           | Some readData \<Rightarrow>
               (case readData bytes of
                  None \<Rightarrow> (Pending, w)
                | Some documents \<Rightarrow>
                    if documents = [] then (Pending, w)
                    else (Resolved (length documents), bulkWrite collectionName documents w))))"

text \<open>
  The \<^verbatim>\<open>while\<close> loop of \<^verbatim>\<open>_restoreCollections\<close>. \<^verbatim>\<open>!dataFormat\<close> holds for
  \<^verbatim>\<open>null\<close> and for the empty string. Every insert is taken to succeed, so the
  logged number of errors is 0.
\<close>

definition unsupported :: "'d registry \<Rightarrow> string \<Rightarrow> string" where
  "unsupported r file = ''Can't read '' @ file @ ''. Supported files : '' @ join (FORMATS r) '',''"

definition inserted :: "nat \<Rightarrow> string" where
  "inserted n = ''Inserted '' @ decimal n @ '' records. '' @ decimal 0 @ '' errors''"

fun restoreLoop ::
  "'d registry \<Rightarrow> config \<Rightarrow> string list \<Rightarrow> 'd world \<Rightarrow> unit promise \<times> 'd world" where
  "restoreLoop r c [] w = (Resolved (), w)"
| "restoreLoop r c (file # rest) w =
     (case getDataFormat r file of
        None \<Rightarrow> restoreLoop r c rest (logInfo (unsupported r file) w)
      | Some dataFormat \<Rightarrow>
          if dataFormat = [] then restoreLoop r c rest (logInfo (unsupported r file) w)
          else
            (let collectionName = replace file (''.'' @ dataFormat) []
             in case restoreCollection r collectionName (path c @ file) dataFormat
                       (createCollection collectionName w) of
                  (Resolved n, w') \<Rightarrow> restoreLoop r c rest (logInfo (inserted n) w')
                | (Rejected err, w') \<Rightarrow> (Rejected err, w')
                | (Pending, w') \<Rightarrow> (Pending, w')))"

text \<open>\<^verbatim>\<open>_restoreCollections(db)\<close> reads the directory and runs the loop.\<close>

definition restoreCollections ::
  "'d registry \<Rightarrow> config \<Rightarrow> 'd world \<Rightarrow> unit promise \<times> 'd world" where
  "restoreCollections r c w =
     (case readdirSync w (path c) of
        Inl err \<Rightarrow> (Rejected err, w)
      | Inr fileNames \<Rightarrow> restoreLoop r c fileNames w)"

text \<open>
  \<^verbatim>\<open>doRestorePromise\<close>, once the client is connected. The state that is returned
  is the one in which the drops have been served, too.
\<close>

definition doRestorePromise ::
  "'d registry \<Rightarrow> config \<Rightarrow> env \<Rightarrow> 'd world \<Rightarrow> unit promise \<times> 'd world" where
  "doRestorePromise r c e w =
     (case readdirSync w (path c) of
        Inl err \<Rightarrow> (Rejected err, w)
      | Inr fileNames \<Rightarrow>
          if length fileNames = 0 then (Rejected ''Files are not fould in backup folder'', w)
          else
            (case restoreCollections r c (w\<lparr>dropsPending := Some (dropDelay e)\<rparr>) of
               (outcome, w') \<Rightarrow> (outcome, settle w')))"

definition doRestore ::
  "'d registry \<Rightarrow> config \<Rightarrow> env \<Rightarrow> 'd world \<Rightarrow> string option \<times> 'd world" where
  "doRestore r c e w =
     (case doRestorePromise r c e w of
        (Resolved u, w') \<Rightarrow> (Some ''Database restored'', w')
      | (Rejected err, w') \<Rightarrow> (Some (''Error while restoring database. '' @ err), w')
      | (Pending, w') \<Rightarrow> (None, w'))"

subsection \<open>Document counts and sample data\<close>

text \<open>The document count of every collection, in the order of the database.\<close>

definition counts :: "'d world \<Rightarrow> (string \<times> nat) list" where
  "counts w = map (\<lambda>collection. (fst collection, length (snd collection))) (collections w)"

text \<open>
  Sample data for the concrete runs below. A document of the sample registry is one
  character, and the file of a collection holds the characters of its documents.
\<close>

definition sampleRegistry :: "char registry" where
  "sampleRegistry =
     \<lparr>FORMATS = [''json'', ''csv''],
      backupParsersOptions = [''json'' \<mapsto> (\<lambda>documents. documents)],
      restoreParsersOptions = [''json'' \<mapsto> Some]\<rparr>"

definition sampleConfig :: config where
  "sampleConfig = \<lparr>path = ''/b/'', database = ''shop'', format = ''json''\<rparr>"

definition sampleEnv :: env where
  "sampleEnv =
     \<lparr>now = 17, streamFault = (\<lambda>name. None), typeError = ''TypeError'', dropDelay = 0\<rparr>"

definition sampleWorld :: "(string \<times> string) list \<Rightarrow> (string \<times> fsFile) list \<Rightarrow> char world" where
  "sampleWorld db fs =
     \<lparr>collections = db, directories = [''/b''], files = fs, logged = [], dropsPending = None,
      uncaught = []\<rparr>"

section \<open>Properties\<close>

subsection \<open>System collections\<close>

lemma sublist_apart:
  assumes "p \<noteq> []" "m \<noteq> []" "set p \<inter> set m = {}"
  shows "sublist p (a @ m @ b) \<longleftrightarrow> sublist p a \<or> sublist p b"
proof
  assume "sublist p (a @ m @ b)"
  then consider "sublist p a" | "sublist p (m @ b)"
    | p1 p2 where "p = p1 @ p2" "suffix p1 a" "prefix p2 (m @ b)"
    by (auto simp: sublist_append)
  then show "sublist p a \<or> sublist p b"
  proof cases
    case 1 then show ?thesis by simp
  next
    case 2
    then consider "sublist p m" | "sublist p b"
      | q1 q2 where "p = q1 @ q2" "suffix q1 m" "prefix q2 b"
      by (auto simp: sublist_append)
    then show ?thesis
    proof cases
      case 1
      with assms show ?thesis using set_mono_sublist[of p m] by (cases p) auto
    next
      case 2 then show ?thesis by simp
    next
      case 3
      show ?thesis
      proof (cases q1)
        case Nil with 3 show ?thesis by auto
      next
        case (Cons x xs)
        from 3(2) have "set q1 \<subseteq> set m" by (rule set_mono_suffix)
        with 3(1) Cons assms(3) show ?thesis by auto
      qed
    qed
  next
    case 3
    show ?thesis
    proof (cases p2)
      case Nil with 3 show ?thesis by auto
    next
      case (Cons x xs)
      from assms(2) obtain y ys where m: "m = y # ys" by (cases m) auto
      with 3 Cons have "x = y" by simp
      with 3 Cons m assms(3) show ?thesis by auto
    qed
  qed
next
  assume "sublist p a \<or> sublist p b"
  then show "sublist p (a @ m @ b)"
    by (meson sublist_append_leftI sublist_append_rightI sublist_order.dual_order.trans)
qed

lemma lineTerminator_apart:
  "lineTerminator (a @ ''system.'' @ b) \<longleftrightarrow> lineTerminator a \<or> lineTerminator b"
proof -
  have "sublist [c] (a @ ''system.'' @ b) \<longleftrightarrow> sublist [c] a \<or> sublist [c] b"
    if "c \<notin> set ''system.''" for c
    using that by (intro sublist_apart) simp_all
  moreover have "sublist [c, d, e] (a @ ''system.'' @ b) \<longleftrightarrow>
      sublist [c, d, e] a \<or> sublist [c, d, e] b"
    if "c \<notin> set ''system.''" "d \<notin> set ''system.''" "e \<notin> set ''system.''" for c d e
    using that by (intro sublist_apart) simp_all
  ultimately show ?thesis
    unfolding lineTerminator_def by simp blast
qed

text \<open>
  The pattern matches exactly the names that contain \<^verbatim>\<open>system.\<close> and hold no line
  terminator.
\<close>

lemma systemRegex_iff:
  "systemRegex s \<longleftrightarrow> sublist ''system.'' s \<and> \<not> lineTerminator s"
proof
  assume "systemRegex s"
  then obtain i where i: "dotStar (take i s)" "prefix ''system.'' (drop i s)"
      "dotStar (drop (i + 7) s)"
    by (auto simp: systemRegex_def list_ex_iff)
  from i(2) obtain t where t: "drop i s = ''system.'' @ t" by (auto simp: prefix_def)
  have "drop (i + 7) s = drop 7 (drop i s)" by (simp add: add.commute)
  with t have t': "drop (i + 7) s = t" by simp
  have "s = take i s @ drop i s" by simp
  with t have s: "s = take i s @ ''system.'' @ t" by simp
  have "\<not> lineTerminator (take i s @ ''system.'' @ t)"
    using i(1) i(3) t' unfolding lineTerminator_apart dotStar_def by simp
  moreover have "sublist ''system.'' (take i s @ ''system.'' @ t)" by (rule sublist_appendI)
  ultimately show "sublist ''system.'' s \<and> \<not> lineTerminator s" using s by metis
next
  assume a: "sublist ''system.'' s \<and> \<not> lineTerminator s"
  then obtain ps ss where s: "s = ps @ ''system.'' @ ss" by (auto simp: sublist_def)
  with a have nl: "\<not> lineTerminator ps" "\<not> lineTerminator ss"
    unfolding s lineTerminator_apart by simp_all
  have "length ps \<in> set [0 ..< Suc (length s)]" by (simp add: s)
  moreover have "dotStar (take (length ps) s)" using nl by (simp add: s dotStar_def)
  moreover have "prefix ''system.'' (drop (length ps) s)" by (simp add: s)
  moreover have "dotStar (drop (length ps + 7) s)" using nl by (simp add: s dotStar_def)
  ultimately show "systemRegex s" unfolding systemRegex_def list_ex_iff by blast
qed

text \<open>The backup loop passes over a system collection without any effect.\<close>

lemma backupLoop_skip:
  "systemCollection (fst collection) \<Longrightarrow>
   backupLoop c e folder opts (before @ collection # after) w =
   backupLoop c e folder opts (before @ after) w"
  by (induction before arbitrary: w) (auto split: prod.splits promise.splits)

text \<open>
  Claim C10, amended. The exclusion predicate is containment, not a prefix match, as far
  as the name holds no line terminator: every collection whose name contains
  \<^verbatim>\<open>system.\<close> anywhere and holds no line terminator is a system collection; the
  backup runs as if the collection were not in the database, and the drops of a restore
  leave it in place.
\<close>

theorem system_names_by_containment:
  assumes "sublist ''system.'' name" and "\<not> lineTerminator name"
  shows "systemCollection name \<and>
         backupLoop c e folder opts (before @ (name, documents) # after) w =
           backupLoop c e folder opts (before @ after) w \<and>
         filter (\<lambda>collection. fst collection = name) (collections (dropCollections w)) =
           filter (\<lambda>collection. fst collection = name) (collections w)"
proof -
  from assms have s: "systemCollection name"
    by (simp add: systemCollection_def systemRegex_iff)
  then have "backupLoop c e folder opts (before @ (name, documents) # after) w =
      backupLoop c e folder opts (before @ after) w"
    by (simp add: backupLoop_skip)
  moreover from s have
    "filter (\<lambda>collection. fst collection = name) (collections (dropCollections w)) =
      filter (\<lambda>collection. fst collection = name) (collections w)"
    by (auto simp: dropCollections_def intro: filter_cong)
  ultimately show ?thesis using s by simp
qed

theorem system_names_by_containment_witness:
  "sublist ''system.'' ''ecosystem.stats'' \<and> \<not> lineTerminator ''ecosystem.stats'' \<and>
   systemCollection ''ecosystem.stats'' \<and>
   backupLoop sampleConfig sampleEnv ''/b/17_shop'' (Some (\<lambda>documents. documents))
       ([(''users'', ''abc'')] @ (''ecosystem.stats'', ''x'') # [(''orders'', ''de'')])
       (sampleWorld [] []) =
     backupLoop sampleConfig sampleEnv ''/b/17_shop'' (Some (\<lambda>documents. documents))
       ([(''users'', ''abc'')] @ [(''orders'', ''de'')]) (sampleWorld [] []) \<and>
   filter (\<lambda>collection. fst collection = ''ecosystem.stats'')
       (collections (dropCollections
          (sampleWorld [(''users'', ''abc''), (''ecosystem.stats'', ''x'')] []))) =
     filter (\<lambda>collection. fst collection = ''ecosystem.stats'')
       (collections (sampleWorld [(''users'', ''abc''), (''ecosystem.stats'', ''x'')] []))"
proof -
  have h1: "sublist ''system.'' ''ecosystem.stats''" by code_simp
  have h2: "\<not> lineTerminator ''ecosystem.stats''" by code_simp
  show ?thesis
    using h1 h2
      system_names_by_containment [OF h1 h2, where c = sampleConfig and e = sampleEnv
        and folder = "''/b/17_shop''" and opts = "Some (\<lambda>documents. documents)"
        and before = "[(''users'', ''abc'')]" and documents = "''x''"
        and after = "[(''orders'', ''de'')]" and w = "sampleWorld [] []"]
      system_names_by_containment [OF h1 h2, where
        w = "sampleWorld [(''users'', ''abc''), (''ecosystem.stats'', ''x'')] []"]
    by blast
qed

text \<open>
  Claim C10 as stated fails: the name \<^verbatim>\<open>ecosystem.stats\<close> followed by a line feed
  contains \<^verbatim>\<open>system.\<close> and is not a system collection; the drops of a restore
  remove the collection.
\<close>

theorem line_terminator_counterexample:
  "sublist ''system.'' (''ecosystem.stats'' @ [CHR 0x0A]) \<and>
   \<not> systemCollection (''ecosystem.stats'' @ [CHR 0x0A]) \<and>
   collections (dropCollections (sampleWorld [(''ecosystem.stats'' @ [CHR 0x0A], ''x'')] [])) = []"
  by code_simp

subsection \<open>Backup of an empty database\<close>

text \<open>
  Claim C8. Backing up a database with zero collections resolves to the failure sentence
  that says the database is empty, and leaves the state as it was: no directory is
  created.
\<close>

theorem empty_database:
  assumes "collections w = []"
  shows "doBackup r c e w = (Some ''Error while backing up database. Database is empty'', w)"
  using assms by (simp add: doBackup_def doBackupPromise_def)

theorem empty_database_witness:
  "collections (sampleWorld [] []) = [] \<and>
   doBackup sampleRegistry sampleConfig sampleEnv (sampleWorld [] []) =
     (Some ''Error while backing up database. Database is empty'', sampleWorld [] [])"
proof -
  have h: "collections (sampleWorld [] []) = ([] :: (string \<times> string) list)"
    by (simp add: sampleWorld_def)
  show ?thesis
    using h empty_database [OF h, of sampleRegistry sampleConfig sampleEnv] by simp
qed

subsection \<open>Runs of restore on concrete directories\<close>

text \<open>
  Claim C9 at the file \<^verbatim>\<open>a.jsonb.json\<close>. The format is \<^verbatim>\<open>json\<close>; stripping the
  trailing \<^verbatim>\<open>.json\<close> would give \<^verbatim>\<open>a.jsonb\<close>, but \<^verbatim>\<open>replace\<close> removes the first
  occurrence of \<^verbatim>\<open>.json\<close>, and the collection that is created and populated is
  \<^verbatim>\<open>ab.json\<close>.
\<close>

theorem first_occurrence_stripped:
  "getDataFormat sampleRegistry ''a.jsonb.json'' = Some ''json'' \<and>
   replace ''a.jsonb.json'' (''.'' @ ''json'') [] = ''ab.json'' \<and>
   doRestore sampleRegistry sampleConfig sampleEnv
       (sampleWorld [] [(''/b/a.jsonb.json'', Readable ''xy'')]) =
     (Some ''Database restored'',
      (sampleWorld [(''ab.json'', ''xy'')] [(''/b/a.jsonb.json'', Readable ''xy'')])
        \<lparr>logged := [''Inserted 2 records. 0 errors'']\<rparr>)"
  by code_simp

text \<open>
  Claim C3 at the file \<^verbatim>\<open>mysystem.data.json\<close>. The restore loop has no test of
  the name: the collection \<^verbatim>\<open>mysystem.data\<close>, which the pattern takes for a system
  collection, is created and populated.
\<close>

theorem system_file_restored:
  "systemCollection ''mysystem.data'' \<and>
   doRestore sampleRegistry sampleConfig sampleEnv
       (sampleWorld [] [(''/b/mysystem.data.json'', Readable ''xy'')]) =
     (Some ''Database restored'',
      (sampleWorld [(''mysystem.data'', ''xy'')] [(''/b/mysystem.data.json'', Readable ''xy'')])
        \<lparr>logged := [''Inserted 2 records. 0 errors'']\<rparr>)"
  by code_simp

text \<open>
  Claim C2 at a directory that holds \<^verbatim>\<open>ecosystem.stats.json\<close> with one document,
  the drops being served before the first request of the loop. The drops spare the
  collection \<^verbatim>\<open>ecosystem.stats\<close>, the loop populates it: one document after the
  first restore, two after the second.
\<close>

theorem second_restore_doubles:
  "counts (snd (doRestore sampleRegistry sampleConfig sampleEnv
       (sampleWorld [] [(''/b/ecosystem.stats.json'', Readable ''x'')]))) =
     [(''ecosystem.stats'', 1)] \<and>
   counts (snd (doRestore sampleRegistry sampleConfig sampleEnv
       (snd (doRestore sampleRegistry sampleConfig sampleEnv
          (sampleWorld [] [(''/b/ecosystem.stats.json'', Readable ''x'')]))))) =
     [(''ecosystem.stats'', 2)]"
  by code_simp

subsection \<open>The restore loop, piece by piece\<close>

lemma restoreLoop_append:
  "restoreLoop r c (xs @ ys) w =
     (case restoreLoop r c xs w of
        (Resolved u, w') \<Rightarrow> restoreLoop r c ys w'
      | (Rejected err, w') \<Rightarrow> (Rejected err, w')
      | (Pending, w') \<Rightarrow> (Pending, w'))"
  by (induction xs arbitrary: w)
    (auto split: prod.splits promise.splits option.splits simp: Let_def)

subsection \<open>What a restore leaves alone\<close>

text \<open>The file system is the same before and after every step of a restore.\<close>

lemma request_fs: "files (request w) = files w \<and> directories (request w) = directories w"
  by (auto simp: request_def settle_def dropCollections_def split: option.splits nat.splits)

lemma settle_fs: "files (settle w) = files w \<and> directories (settle w) = directories w"
  by (auto simp: settle_def dropCollections_def split: option.splits)

lemma createCollection_fs:
  "files (createCollection name w) = files w \<and>
   directories (createCollection name w) = directories w"
  by (simp add: createCollection_def Let_def request_fs)

lemma restoreCollection_fs:
  "restoreCollection r name p f w = (out, w') \<Longrightarrow>
   files w' = files w \<and> directories w' = directories w"
  by (auto simp: restoreCollection_def bulkWrite_def Let_def request_fs
      split: sum.splits option.splits if_splits)

lemma restoreLoop_fs:
  "restoreLoop r c fs w = (out, w') \<Longrightarrow>
   files w' = files w \<and> directories w' = directories w"
proof (induction fs arbitrary: w)
  case Nil
  then show ?case by simp
next
  case (Cons x fs)
  show ?case
  proof (cases "getDataFormat r x = None \<or> getDataFormat r x = Some []")
    case True
    with Cons.prems have "restoreLoop r c fs (logInfo (unsupported r x) w) = (out, w')"
      by auto
    from Cons.IH [OF this] show ?thesis by (simp add: logInfo_def)
  next
    case False
    then obtain f where f: "getDataFormat r x = Some f" "f \<noteq> []" by auto
    let ?name = "replace x (''.'' @ f) []"
    obtain o1 w1 where rc: "restoreCollection r ?name (path c @ x) f (createCollection ?name w) = (o1, w1)"
      by (cases "restoreCollection r ?name (path c @ x) f (createCollection ?name w)")
    from restoreCollection_fs [OF rc] have w1: "files w1 = files w \<and> directories w1 = directories w"
      by (simp add: createCollection_fs)
    show ?thesis
    proof (cases o1)
      case (Resolved n)
      with Cons.prems f rc have "restoreLoop r c fs (logInfo (inserted n) w1) = (out, w')"
        by (simp add: Let_def)
      from Cons.IH [OF this] w1 show ?thesis by (simp add: logInfo_def)
    next
      case (Rejected err)
      with Cons.prems f rc w1 show ?thesis by (auto simp: Let_def)
    next
      case Pending
      with Cons.prems f rc w1 show ?thesis by (auto simp: Let_def)
    qed
  qed
qed

lemma readStream_fs:
  "files w' = files w \<Longrightarrow> directories w' = directories w \<Longrightarrow> readStream w' p = readStream w p"
  by (simp add: readStream_def isDirectory_def allPaths_def)

lemma readdirSync_fs:
  "files w' = files w \<Longrightarrow> directories w' = directories w \<Longrightarrow> readdirSync w' p = readdirSync w p"
  by (simp add: readdirSync_def isDirectory_def isFile_def entries_def allPaths_def)

text \<open>
  Claim C4, amended. A failure of the read stream of one file is fatal for the whole
  restore: when the files listed before it have been processed without a rejection and
  its read stream emits \<^verbatim>\<open>error\<close>, \<^verbatim>\<open>doRestore\<close> resolves to the error sentence
  that names the collection and carries the message. The final state is the state that
  the files before it left, with the collection of the failing file created and the
  drops that were still on their way served: the files after it are not processed.
\<close>

theorem restore_aborts_at_read_failure:
  assumes "readdirSync w (path c) = Inr (before @ file # after)"
    and "restoreLoop r c before (w\<lparr>dropsPending := Some (dropDelay e)\<rparr>) = (Resolved (), w1)"
    and "getDataFormat r file = Some dataFormat" and "dataFormat \<noteq> []"
    and "readStream w (path c @ file) = Inl message"
    and "name = replace file (''.'' @ dataFormat) []"
  shows "doRestore r c e w =
     (Some (''Error while restoring database. '' @ ''Can't restore '' @ name @ ''. '' @ message),
      settle (createCollection name w1))"
proof -
  let ?w0 = "w\<lparr>dropsPending := Some (dropDelay e)\<rparr>"
  from restoreLoop_fs [OF assms(2)] have fs1: "files w1 = files w" "directories w1 = directories w"
    by simp_all
  have "readStream (createCollection name w1) (path c @ file) = readStream w (path c @ file)"
    by (rule readStream_fs) (simp_all add: createCollection_fs fs1)
  with assms(5) have "restoreCollection r name (path c @ file) dataFormat (createCollection name w1) =
      (Rejected (''Can't restore '' @ name @ ''. '' @ message), createCollection name w1)"
    by (simp add: restoreCollection_def)
  with assms(3,4,6) have "restoreLoop r c (file # after) w1 =
      (Rejected (''Can't restore '' @ name @ ''. '' @ message), createCollection name w1)"
    by (simp add: Let_def)
  with assms(2) have "restoreLoop r c (before @ file # after) ?w0 =
      (Rejected (''Can't restore '' @ name @ ''. '' @ message), createCollection name w1)"
    by (simp add: restoreLoop_append)
  moreover have "readdirSync ?w0 (path c) = readdirSync w (path c)"
    by (rule readdirSync_fs) simp_all
  ultimately show ?thesis using assms(1)
    by (simp add: doRestore_def doRestorePromise_def restoreCollections_def)
qed

theorem restore_aborts_at_read_failure_witness:
  "readdirSync (sampleWorld [] [(''/b/users.json'', Readable ''abc''),
       (''/b/orders.json'', Unreadable ''EIO: i/o error, read''), (''/b/items.json'', Readable ''f'')])
     (path sampleConfig) = Inr ([''items.json''] @ ''orders.json'' # [''users.json'']) \<and>
   getDataFormat sampleRegistry ''orders.json'' = Some ''json'' \<and>
   readStream (sampleWorld [] [(''/b/users.json'', Readable ''abc''),
       (''/b/orders.json'', Unreadable ''EIO: i/o error, read''), (''/b/items.json'', Readable ''f'')])
     (path sampleConfig @ ''orders.json'') = Inl ''EIO: i/o error, read'' \<and>
   doRestore sampleRegistry sampleConfig sampleEnv
     (sampleWorld [] [(''/b/users.json'', Readable ''abc''),
       (''/b/orders.json'', Unreadable ''EIO: i/o error, read''), (''/b/items.json'', Readable ''f'')]) =
     (Some (''Error while restoring database. '' @ ''Can't restore '' @ ''orders'' @ ''. '' @
        ''EIO: i/o error, read''),
      (sampleWorld [(''items'', ''f''), (''orders'', [])] [(''/b/users.json'', Readable ''abc''),
       (''/b/orders.json'', Unreadable ''EIO: i/o error, read''), (''/b/items.json'', Readable ''f'')])
       \<lparr>logged := [''Inserted 1 records. 0 errors'']\<rparr>)"
proof -
  let ?fs = "[(''/b/users.json'', Readable ''abc''),
       (''/b/orders.json'', Unreadable ''EIO: i/o error, read''), (''/b/items.json'', Readable ''f'')]"
  let ?w = "sampleWorld [] ?fs :: char world"
  let ?w1 = "(sampleWorld [(''items'', ''f'')] ?fs)\<lparr>logged := [''Inserted 1 records. 0 errors'']\<rparr>"
  have h1: "readdirSync ?w (path sampleConfig) = Inr ([''items.json''] @ ''orders.json'' # [''users.json''])"
    by code_simp
  have h2: "restoreLoop sampleRegistry sampleConfig [''items.json'']
      (?w\<lparr>dropsPending := Some (dropDelay sampleEnv)\<rparr>) = (Resolved (), ?w1)"
    by code_simp
  have h3: "getDataFormat sampleRegistry ''orders.json'' = Some ''json''" by code_simp
  have h4: "''json'' \<noteq> []" by simp
  have h5: "readStream ?w (path sampleConfig @ ''orders.json'') = Inl ''EIO: i/o error, read''"
    by code_simp
  have h6: "''orders'' = replace ''orders.json'' (''.'' @ ''json'') []" by code_simp
  have h7: "settle (createCollection ''orders'' ?w1) =
      (sampleWorld [(''items'', ''f''), (''orders'', [])] ?fs)
       \<lparr>logged := [''Inserted 1 records. 0 errors'']\<rparr>"
    by code_simp
  from restore_aborts_at_read_failure [OF h1 h2 h3 h4 h5 h6] h1 h3 h5 h7
  show ?thesis by simp
qed

text \<open>
  Claim C4 as stated fails: the read stream of the first of two files fails,
  \<^verbatim>\<open>doRestore\<close> resolves to the error sentence and the second file is not restored.
\<close>

theorem read_failure_counterexample:
  "doRestore sampleRegistry sampleConfig sampleEnv
     (sampleWorld [] [(''/b/a.json'', Unreadable ''EIO: i/o error, read''),
        (''/b/b.json'', Readable ''xy'')]) =
     (Some ''Error while restoring database. Can't restore a. EIO: i/o error, read'',
      sampleWorld [(''a'', [])] [(''/b/a.json'', Unreadable ''EIO: i/o error, read''),
        (''/b/b.json'', Readable ''xy'')])"
  by code_simp

subsection \<open>The log decides nothing\<close>

lemma request_logged: "request (w\<lparr>logged := l\<rparr>) = (request w)\<lparr>logged := l\<rparr>"
  by (auto simp: request_def settle_def dropCollections_def split: option.splits nat.splits)

lemma createCollection_logged:
  "createCollection name (w\<lparr>logged := l\<rparr>) = (createCollection name w)\<lparr>logged := l\<rparr>"
  by (simp add: createCollection_def Let_def request_logged)

lemma bulkWrite_logged:
  "bulkWrite name documents (w\<lparr>logged := l\<rparr>) = (bulkWrite name documents w)\<lparr>logged := l\<rparr>"
  by (simp add: bulkWrite_def Let_def request_logged)

lemma restoreCollection_logged:
  "restoreCollection r name p f (w\<lparr>logged := l\<rparr>) =
     (fst (restoreCollection r name p f w), (snd (restoreCollection r name p f w))\<lparr>logged := l\<rparr>)"
proof -
  have "readStream (w\<lparr>logged := l\<rparr>) p = readStream w p"
    by (rule readStream_fs) simp_all
  then show ?thesis
    by (simp add: restoreCollection_def bulkWrite_logged split: sum.splits option.splits)
qed

lemma restoreLoop_logged:
  "\<exists>l'. restoreLoop r c fs (w\<lparr>logged := l\<rparr>) =
     (fst (restoreLoop r c fs w), (snd (restoreLoop r c fs w))\<lparr>logged := l'\<rparr>)"
proof (induction fs arbitrary: w l)
  case Nil
  show ?case by (auto intro: exI [of _ l])
next
  case (Cons x fs)
  show ?case
  proof (cases "getDataFormat r x = None \<or> getDataFormat r x = Some []")
    case True
    from Cons.IH [where w = "logInfo (unsupported r x) w" and l = "l @ [unsupported r x]"]
    obtain l' where "restoreLoop r c fs ((logInfo (unsupported r x) w)\<lparr>logged := l @ [unsupported r x]\<rparr>) =
      (fst (restoreLoop r c fs (logInfo (unsupported r x) w)),
       (snd (restoreLoop r c fs (logInfo (unsupported r x) w)))\<lparr>logged := l'\<rparr>)"
      by blast
    moreover have "(logInfo (unsupported r x) w)\<lparr>logged := l @ [unsupported r x]\<rparr> =
        logInfo (unsupported r x) (w\<lparr>logged := l\<rparr>)"
      by (simp add: logInfo_def)
    ultimately show ?thesis using True by auto
  next
    case False
    then obtain f where f: "getDataFormat r x = Some f" "f \<noteq> []" by auto
    let ?name = "replace x (''.'' @ f) []"
    let ?rc = "restoreCollection r ?name (path c @ x) f (createCollection ?name w)"
    have rcl: "restoreCollection r ?name (path c @ x) f (createCollection ?name (w\<lparr>logged := l\<rparr>)) =
        (fst ?rc, (snd ?rc)\<lparr>logged := l\<rparr>)"
      by (simp add: createCollection_logged restoreCollection_logged)
    show ?thesis
    proof (cases "fst ?rc")
      case (Resolved n)
      from Cons.IH [where w = "logInfo (inserted n) (snd ?rc)" and l = "l @ [inserted n]"]
      obtain l' where "restoreLoop r c fs ((logInfo (inserted n) (snd ?rc))\<lparr>logged := l @ [inserted n]\<rparr>) =
        (fst (restoreLoop r c fs (logInfo (inserted n) (snd ?rc))),
         (snd (restoreLoop r c fs (logInfo (inserted n) (snd ?rc))))\<lparr>logged := l'\<rparr>)"
        by blast
      moreover have "(logInfo (inserted n) (snd ?rc))\<lparr>logged := l @ [inserted n]\<rparr> =
          logInfo (inserted n) ((snd ?rc)\<lparr>logged := l\<rparr>)"
        by (simp add: logInfo_def)
      ultimately show ?thesis using f rcl Resolved
        by (auto simp: Let_def split: prod.splits)
    next
      case (Rejected err)
      with f rcl show ?thesis by (auto simp: Let_def split: prod.splits)
    next
      case Pending
      with f rcl show ?thesis by (auto simp: Let_def split: prod.splits)
    qed
  qed
qed

lemma restoreLoop_logInfo:
  "fst (restoreLoop r c fs (logInfo m w)) = fst (restoreLoop r c fs w) \<and>
   collections (snd (restoreLoop r c fs (logInfo m w))) = collections (snd (restoreLoop r c fs w))"
proof -
  from restoreLoop_logged [where r = r and c = c and fs = fs and w = w and l = "logged w @ [m]"]
  obtain l' where "restoreLoop r c fs (w\<lparr>logged := logged w @ [m]\<rparr>) =
     (fst (restoreLoop r c fs w), (snd (restoreLoop r c fs w))\<lparr>logged := l'\<rparr>)"
    by blast
  then show ?thesis by (simp add: logInfo_def)
qed

text \<open>The log only grows.\<close>

lemma restoreCollection_keeps_log:
  "logged (snd (restoreCollection r name p f (createCollection name w))) = logged w"
  by (auto simp: restoreCollection_def createCollection_def bulkWrite_def request_def settle_def
      dropCollections_def Let_def split: sum.splits option.splits nat.splits)

lemma restoreLoop_keeps_log:
  "m \<in> set (logged w) \<Longrightarrow> m \<in> set (logged (snd (restoreLoop r c fs w)))"
proof (induction fs arbitrary: w)
  case Nil
  then show ?case by simp
next
  case (Cons x fs)
  show ?case
  proof (cases "getDataFormat r x = None \<or> getDataFormat r x = Some []")
    case True
    have "m \<in> set (logged (logInfo (unsupported r x) w))"
      using Cons.prems by (simp add: logInfo_def)
    from Cons.IH [OF this] True show ?thesis by auto
  next
    case False
    then obtain f where f: "getDataFormat r x = Some f" "f \<noteq> []" by auto
    let ?name = "replace x (''.'' @ f) []"
    let ?rc = "restoreCollection r ?name (path c @ x) f (createCollection ?name w)"
    have l: "m \<in> set (logged (snd ?rc))"
      using Cons.prems by (simp add: restoreCollection_keeps_log)
    show ?thesis
    proof (cases "fst ?rc")
      case (Resolved n)
      from l have "m \<in> set (logged (logInfo (inserted n) (snd ?rc)))" by (simp add: logInfo_def)
      from Cons.IH [OF this] f Resolved show ?thesis
        by (auto simp: Let_def split: prod.splits)
    next
      case (Rejected err)
      with f l show ?thesis by (auto simp: Let_def split: prod.splits)
    next
      case Pending
      with f l show ?thesis by (auto simp: Let_def split: prod.splits)
    qed
  qed
qed

lemma getDataFormat_None:
  "(\<forall>key \<in> set (FORMATS r). \<not> suffix (''.'' @ key) fileName) \<Longrightarrow> getDataFormat r fileName = None"
proof -
  have "(\<forall>key \<in> set ks. \<not> suffix (''.'' @ key) fileName) \<Longrightarrow>
      foldl (\<lambda>dataFormat key. if suffix (''.'' @ key) fileName then Some key else dataFormat) a ks = a"
    for ks and a :: "string option"
    by (induction ks arbitrary: a) auto
  then show "(\<forall>key \<in> set (FORMATS r). \<not> suffix (''.'' @ key) fileName) \<Longrightarrow> getDataFormat r fileName = None"
    by (simp add: getDataFormat_def)
qed

text \<open>
  Claim C7. A file whose name ends with none of the formats of the registry is skipped:
  the restore has the outcome and leaves the collections that it has without the file,
  the note on the file is written to the log with \<^verbatim>\<open>logInfo\<close> once the files before
  it are restored, and \<^verbatim>\<open>doRestore\<close> over a directory with the file resolves to what
  the restore of the other files decides.
\<close>

theorem unrecognized_file_skipped:
  assumes "\<forall>key \<in> set (FORMATS r). \<not> suffix (''.'' @ key) file"
  shows "fst (restoreLoop r c (before @ file # after) w) = fst (restoreLoop r c (before @ after) w) \<and>
     collections (snd (restoreLoop r c (before @ file # after) w)) =
       collections (snd (restoreLoop r c (before @ after) w)) \<and>
     (fst (restoreLoop r c before w) = Resolved () \<longrightarrow>
        unsupported r file \<in> set (logged (snd (restoreLoop r c (before @ file # after) w)))) \<and>
     (readdirSync w (path c) = Inr (before @ file # after) \<longrightarrow>
        fst (doRestore r c e w) =
          (case fst (restoreLoop r c (before @ after) (w\<lparr>dropsPending := Some (dropDelay e)\<rparr>)) of
             Resolved u \<Rightarrow> Some ''Database restored''
           | Rejected err \<Rightarrow> Some (''Error while restoring database. '' @ err)
           | Pending \<Rightarrow> None))"
proof -
  from assms have none: "getDataFormat r file = None" by (rule getDataFormat_None)
  then have step: "restoreLoop r c (file # after) v = restoreLoop r c after (logInfo (unsupported r file) v)"
    for v by simp
  have same: "fst (restoreLoop r c (before @ file # after) v) = fst (restoreLoop r c (before @ after) v) \<and>
     collections (snd (restoreLoop r c (before @ file # after) v)) =
       collections (snd (restoreLoop r c (before @ after) v))" for v
    by (cases "restoreLoop r c before v")
      (auto simp: restoreLoop_append none restoreLoop_logInfo split: promise.splits)
  have noted: "unsupported r file \<in> set (logged (snd (restoreLoop r c (before @ file # after) w)))"
    if res: "fst (restoreLoop r c before w) = Resolved ()"
  proof -
    obtain w1 where w1: "restoreLoop r c before w = (Resolved (), w1)"
      using res by (cases "restoreLoop r c before w") auto
    have "unsupported r file \<in> set (logged (logInfo (unsupported r file) w1))"
      by (simp add: logInfo_def)
    then have "unsupported r file \<in> set (logged (snd (restoreLoop r c after (logInfo (unsupported r file) w1))))"
      by (rule restoreLoop_keeps_log)
    with w1 show ?thesis by (simp add: restoreLoop_append none)
  qed
  have top: "fst (doRestore r c e w) =
      (case fst (restoreLoop r c (before @ after) (w\<lparr>dropsPending := Some (dropDelay e)\<rparr>)) of
         Resolved u \<Rightarrow> Some ''Database restored''
       | Rejected err \<Rightarrow> Some (''Error while restoring database. '' @ err)
       | Pending \<Rightarrow> None)"
    if listing: "readdirSync w (path c) = Inr (before @ file # after)"
  proof -
    let ?w0 = "w\<lparr>dropsPending := Some (dropDelay e)\<rparr>"
    have "readdirSync ?w0 (path c) = readdirSync w (path c)"
      by (rule readdirSync_fs) simp_all
    with listing have "fst (doRestore r c e w) =
        (case fst (restoreLoop r c (before @ file # after) ?w0) of
           Resolved u \<Rightarrow> Some ''Database restored''
         | Rejected err \<Rightarrow> Some (''Error while restoring database. '' @ err)
         | Pending \<Rightarrow> None)"
      by (auto simp: doRestore_def doRestorePromise_def restoreCollections_def
          split: prod.splits promise.splits)
    with same [of ?w0] show ?thesis by simp
  qed
  from same [of w] noted top show ?thesis by blast
qed

theorem unrecognized_file_skipped_witness:
  "\<not> suffix (''.'' @ ''json'') ''notes.txt'' \<and> \<not> suffix (''.'' @ ''csv'') ''notes.txt'' \<and>
   readdirSync (sampleWorld [] [(''/b/items.json'', Readable ''abc''),
       (''/b/notes.txt'', Readable ''hello''), (''/b/orders.json'', Readable ''de'')])
     (path sampleConfig) = Inr ([''items.json''] @ ''notes.txt'' # [''orders.json'']) \<and>
   fst (restoreLoop sampleRegistry sampleConfig ([''items.json''] @ ''notes.txt'' # [''orders.json''])
     (sampleWorld [] [(''/b/items.json'', Readable ''abc''),
       (''/b/notes.txt'', Readable ''hello''), (''/b/orders.json'', Readable ''de'')])) = Resolved () \<and>
   collections (snd (restoreLoop sampleRegistry sampleConfig
     ([''items.json''] @ ''notes.txt'' # [''orders.json''])
     (sampleWorld [] [(''/b/items.json'', Readable ''abc''),
       (''/b/notes.txt'', Readable ''hello''), (''/b/orders.json'', Readable ''de'')]))) =
     [(''items'', ''abc''), (''orders'', ''de'')] \<and>
   unsupported sampleRegistry ''notes.txt'' \<in> set (logged (snd (restoreLoop sampleRegistry sampleConfig
     ([''items.json''] @ ''notes.txt'' # [''orders.json''])
     (sampleWorld [] [(''/b/items.json'', Readable ''abc''),
       (''/b/notes.txt'', Readable ''hello''), (''/b/orders.json'', Readable ''de'')])))) \<and>
   fst (doRestore sampleRegistry sampleConfig sampleEnv
     (sampleWorld [] [(''/b/items.json'', Readable ''abc''),
       (''/b/notes.txt'', Readable ''hello''), (''/b/orders.json'', Readable ''de'')])) =
     Some ''Database restored''"
proof -
  let ?w = "sampleWorld [] [(''/b/items.json'', Readable ''abc''),
       (''/b/notes.txt'', Readable ''hello''), (''/b/orders.json'', Readable ''de'')] :: char world"
  have h1: "\<not> suffix (''.'' @ ''json'') ''notes.txt''" by code_simp
  have h2: "\<not> suffix (''.'' @ ''csv'') ''notes.txt''" by code_simp
  have h: "\<forall>key \<in> set (FORMATS sampleRegistry). \<not> suffix (''.'' @ key) ''notes.txt''"
    using h1 h2 by (simp add: sampleRegistry_def)
  have l: "readdirSync ?w (path sampleConfig) = Inr ([''items.json''] @ ''notes.txt'' # [''orders.json''])"
    by code_simp
  have b: "fst (restoreLoop sampleRegistry sampleConfig [''items.json''] ?w) = Resolved ()"
    by code_simp
  have o1: "fst (restoreLoop sampleRegistry sampleConfig ([''items.json''] @ [''orders.json'']) ?w) =
      Resolved ()"
    by code_simp
  have o2: "collections (snd (restoreLoop sampleRegistry sampleConfig
      ([''items.json''] @ [''orders.json'']) ?w)) = [(''items'', ''abc''), (''orders'', ''de'')]"
    by code_simp
  have o0: "fst (restoreLoop sampleRegistry sampleConfig ([''items.json''] @ [''orders.json''])
      (?w\<lparr>dropsPending := Some (dropDelay sampleEnv)\<rparr>)) = Resolved ()"
    by code_simp
  note skipped = unrecognized_file_skipped
    [OF h, of sampleConfig "[''items.json'']" "[''orders.json'']" ?w sampleEnv]
  from skipped o1 have c1: "fst (restoreLoop sampleRegistry sampleConfig
      ([''items.json''] @ ''notes.txt'' # [''orders.json'']) ?w) = Resolved ()"
    by (simp only:)
  from skipped o2 have c2: "collections (snd (restoreLoop sampleRegistry sampleConfig
      ([''items.json''] @ ''notes.txt'' # [''orders.json'']) ?w)) =
      [(''items'', ''abc''), (''orders'', ''de'')]"
    by (simp only:)
  from skipped b have c3: "unsupported sampleRegistry ''notes.txt'' \<in>
      set (logged (snd (restoreLoop sampleRegistry sampleConfig
        ([''items.json''] @ ''notes.txt'' # [''orders.json'']) ?w)))"
    by blast
  from skipped l have "fst (doRestore sampleRegistry sampleConfig sampleEnv ?w) =
      (case fst (restoreLoop sampleRegistry sampleConfig ([''items.json''] @ [''orders.json''])
          (?w\<lparr>dropsPending := Some (dropDelay sampleEnv)\<rparr>)) of
         Resolved u \<Rightarrow> Some ''Database restored''
       | Rejected err \<Rightarrow> Some (''Error while restoring database. '' @ err)
       | Pending \<Rightarrow> None)"
    by blast
  then have c4: "fst (doRestore sampleRegistry sampleConfig sampleEnv ?w) = Some ''Database restored''"
    by (simp only: o0 promise.case)
  from h1 h2 l c1 c2 c3 c4 show ?thesis by blast
qed

subsection \<open>Runs of backup on concrete databases\<close>



subsection \<open>Backup, then restore\<close>

text \<open>
  Claim C1 at three source databases without a system collection. Each is backed up to
  \<^verbatim>\<open>/b/17_shop\<close>, and the backup is restored into a database without collections.

  \<^item> The source holds \<^verbatim>\<open>a.jsonb\<close> with two documents. Backup and restore succeed, and
    the target holds \<^verbatim>\<open>ab.json\<close> with two documents and no \<^verbatim>\<open>a.jsonb\<close>: the name of
    the file \<^verbatim>\<open>a.jsonb.json\<close> lost the first \<^verbatim>\<open>.json\<close> in it.
  \<^item> The source holds \<^verbatim>\<open>a\<close> without documents and \<^verbatim>\<open>b\<close> with one. The backup succeeds;
    the restore stops at \<^verbatim>\<open>a\<close>, whose promise never settles, and \<^verbatim>\<open>b\<close> is missing in
    the target.
  \<^item> The source holds \<^verbatim>\<open>users\<close> with three documents, and the drops of the restore are
    served after two requests of the loop. The restore succeeds and the target is empty.
\<close>

theorem round_trip_fails:
  "systemCollection ''a.jsonb'' = False \<and>
   fst (doBackup sampleRegistry sampleConfig sampleEnv (sampleWorld [(''a.jsonb'', ''xy'')] [])) =
     Some ''Backup is ready. Path to backup is /b/17_shop.'' \<and>
   fst (doRestore sampleRegistry (sampleConfig\<lparr>path := ''/b/17_shop/''\<rparr>) sampleEnv
      ((snd (doBackup sampleRegistry sampleConfig sampleEnv (sampleWorld [(''a.jsonb'', ''xy'')] [])))
        \<lparr>collections := []\<rparr>)) = Some ''Database restored'' \<and>
   counts (sampleWorld [(''a.jsonb'', ''xy'')] []) = [(''a.jsonb'', 2)] \<and>
   counts (snd (doRestore sampleRegistry (sampleConfig\<lparr>path := ''/b/17_shop/''\<rparr>) sampleEnv
      ((snd (doBackup sampleRegistry sampleConfig sampleEnv (sampleWorld [(''a.jsonb'', ''xy'')] [])))
        \<lparr>collections := []\<rparr>))) = [(''ab.json'', 2)] \<and>
   fst (doBackup sampleRegistry sampleConfig sampleEnv
      (sampleWorld [(''a'', ''''), (''b'', ''x'')] [])) =
     Some ''Backup is ready. Path to backup is /b/17_shop.'' \<and>
   fst (doRestore sampleRegistry (sampleConfig\<lparr>path := ''/b/17_shop/''\<rparr>) sampleEnv
      ((snd (doBackup sampleRegistry sampleConfig sampleEnv
          (sampleWorld [(''a'', ''''), (''b'', ''x'')] [])))
        \<lparr>collections := []\<rparr>)) = None \<and>
   counts (snd (doRestore sampleRegistry (sampleConfig\<lparr>path := ''/b/17_shop/''\<rparr>) sampleEnv
      ((snd (doBackup sampleRegistry sampleConfig sampleEnv
          (sampleWorld [(''a'', ''''), (''b'', ''x'')] [])))
        \<lparr>collections := []\<rparr>))) = [(''a'', 0)] \<and>
   fst (doRestore sampleRegistry (sampleConfig\<lparr>path := ''/b/17_shop/''\<rparr>)
      (sampleEnv\<lparr>dropDelay := 2\<rparr>)
      ((snd (doBackup sampleRegistry sampleConfig sampleEnv (sampleWorld [(''users'', ''abc'')] [])))
        \<lparr>collections := []\<rparr>)) = Some ''Database restored'' \<and>
   counts (snd (doRestore sampleRegistry (sampleConfig\<lparr>path := ''/b/17_shop/''\<rparr>)
      (sampleEnv\<lparr>dropDelay := 2\<rparr>)
      ((snd (doBackup sampleRegistry sampleConfig sampleEnv (sampleWorld [(''users'', ''abc'')] [])))
        \<lparr>collections := []\<rparr>))) = []"
  by code_simp

end
